theory Spec2Isabelle
  imports Main
begin

section \<open>The display configuration manifest \<^verbatim>\<open>faculty_desk_unit/User_Setup.h\<close>\<close>

text \<open>
  The repository's single source file is a header of preprocessor directives that the
  TFT_eSPI driver library includes. Its meaning is the macro table a C preprocessor holds
  after reading it. The file is embedded as it is written, one string per physical line
  (62 lines, the last one without a final newline), and the part of the preprocessor that
  the file exercises is written out as executable functions over those lines.
\<close>

subsection \<open>The source text\<close>

definition User_Setup_h :: \<open>string list\<close> where
  \<open>User_Setup_h = [
    ''// User setup file for the TFT_eSPI library for the ConsultEase Faculty Desk Unit'',
    ''// For ESP32 with 2.4" TFT SPI Display (ST7789)'',
    '''',
    ''// => Copy this file to the libraries/TFT_eSPI folder in your Arduino IDE'',
    '''',
    ''#define USER_SETUP_INFO "ConsultEase Faculty Desk Unit"'',
    '''',
    ''// Define the ESP32 board'',
    ''#define ESP32_PARALLEL'',
    '''',
    ''// Comment out the next line to use SPI interface instead of parallel'',
    ''//#define TFT_PARALLEL_8_BIT'',
    '''',
    ''// Display driver'',
    ''#define ST7789_DRIVER'',
    '''',
    ''// Display resolution'',
    ''#define TFT_WIDTH  240'',
    ''#define TFT_HEIGHT 320'',
    '''',
    ''// For ST7789 display in Landscape orientation'',
    ''#define CGRAM_OFFSET'',
    '''',
    ''// Color depth'',
    ''#define SPI_FREQUENCY  27000000   // Works with SPI display'',
    ''//#define SPI_FREQUENCY  40000000 // Maximum for ST7789 but might be unstable'',
    '''',
    ''// ESP32 Pin configuration for SPI display'',
    ''// VSPI port is used (/CS=GPIO5, MOSI=GPIO23, MISO=GPIO19, SCK=GPIO18)'',
    ''#define TFT_MISO 19'',
    ''#define TFT_MOSI 23'',
    ''#define TFT_SCLK 18'',
    ''#define TFT_CS   5   // Chip select control pin'',
    ''#define TFT_DC   2   // Data Command control pin'',
    ''#define TFT_RST  4   // Reset pin'',
    ''#define TFT_BL   15  // LED back-light'',
    '''',
    ''// Touch screen chip select - set to -1 if touch is not used'',
    ''#define TOUCH_CS -1'',
    '''',
    ''// Comment out to use SPI read for TFT'',
    ''#define TFT_SPI_MODE SPI_MODE0'',
    '''',
    ''// Load the font files'',
    ''#define LOAD_GLCD   // Font 1. Original Adafruit 8 pixel font needs ~1820 bytes in FLASH'',
    ''#define LOAD_FONT2  // Font 2. Small 16 pixel high font, needs ~3534 bytes in FLASH, 96 characters'',
    ''#define LOAD_FONT4  // Font 4. Medium 26 pixel high font, needs ~5848 bytes in FLASH, 96 characters'',
    ''#define LOAD_FONT6  // Font 6. Large 48 pixel font, needs ~2666 bytes in FLASH, only characters 1234567890:-.apm'',
    ''#define LOAD_FONT7  // Font 7. 7 segment 48 pixel font, needs ~2438 bytes in FLASH, only characters 1234567890:.'',
    ''#define LOAD_FONT8  // Font 8. Large 75 pixel font needs ~3256 bytes in FLASH, only characters 1234567890:-.'',
    ''//#define LOAD_FONT8N // Font 8 narrow, only characters 1234567890:-.'',
    '''',
    ''// Additional options'',
    ''#define SMOOTH_FONT'',
    ''//#define SPI_TOUCH  // Saves DMA channel if SPI display is used'',
    '''',
    ''// Swap bytes in 16-bit color transfers'',
    ''// #define TFT_RGB_ORDER TFT_RGB  // Colour order Red-Green-Blue'',
    ''#define TFT_RGB_ORDER TFT_BGR  // Colour order Blue-Green-Red'',
    '''',
    ''// Avoid conflict with SUPPORT_TRANSACTIONS in the library'',
    ''//#define SUPPORT_TRANSACTIONS ''
  ]\<close>

subsection \<open>Lexical helpers\<close>

definition dquote :: char where
  "dquote = CHR 0x22"

definition backslash :: char where
  "backslash = CHR 0x5C"

definition is_space :: "char \<Rightarrow> bool" where
  "is_space c = (c = CHR '' '' \<or> c = CHR 0x09)"

definition is_digit :: "char \<Rightarrow> bool" where
  "is_digit c = (c \<in> set ''0123456789'')"

definition is_ident_char :: "char \<Rightarrow> bool" where
  "is_ident_char c =
     (c \<in> set ''abcdefghijklmnopqrstuvwxyzABCDEFGHIJKLMNOPQRSTUVWXYZ_0123456789'')"

definition trim :: "string \<Rightarrow> string" where
  "trim s = rev (dropWhile is_space (rev (dropWhile is_space s)))"

text \<open>
  Translation phase 3 replaces a comment by white space before any directive is looked
  at, so a \<^verbatim>\<open>#define\<close> behind \<^verbatim>\<open>//\<close> never reaches the preprocessor. The flag says
  whether the scan is inside a string literal, where \<^verbatim>\<open>//\<close> does not open a comment and a
  backslash protects the next character.
\<close>

fun strip_comment :: "bool \<Rightarrow> string \<Rightarrow> string" where
  "strip_comment in_str [] = []"
| "strip_comment in_str [c] = [c]"
| "strip_comment in_str (c # d # cs) =
     (if in_str then
        (if c = backslash then c # d # strip_comment True cs
         else if c = dquote then c # strip_comment False (d # cs)
         else c # strip_comment True (d # cs))
      else if c = CHR ''/'' \<and> d = CHR ''/'' then []
      else if c = dquote then c # strip_comment True (d # cs)
      else c # strip_comment False (d # cs))"

text \<open>
  The model covers line comments only. A block comment or a line continuation would make
  the meaning of a line depend on its neighbours; \<open>single_line\<close> says a line has neither.
\<close>

fun has_block_comment :: "string \<Rightarrow> bool" where
  "has_block_comment (c # d # cs) =
     ((c = CHR ''/'' \<and> d = CHR ''*'') \<or> has_block_comment (d # cs))"
| "has_block_comment _ = False"

definition single_line :: "string \<Rightarrow> bool" where
  "single_line l = (\<not> has_block_comment l \<and> \<not> (l \<noteq> [] \<and> last l = backslash))"

subsection \<open>Directives\<close>

datatype directive =
    Define string string
  | Blank
  | Unsupported string

text \<open>
  An object-like macro definition is \<^verbatim>\<open>#\<close>, the word \<^verbatim>\<open>define\<close>, an identifier and the
  replacement list, which is the rest of the line without the white space around it.
  Every other non-empty line (another directive, a function-like macro, program text) is
  kept as \<open>Unsupported\<close>: the manifest has none.
\<close>

definition directive_of :: "string \<Rightarrow> directive" where
  "directive_of l =
     (let s = dropWhile is_space (strip_comment False l) in
      case s of
        [] \<Rightarrow> Blank
      | c # r \<Rightarrow>
          if c \<noteq> CHR ''#'' then Unsupported s
          else
            let r1 = dropWhile is_space r;
                kw = takeWhile is_ident_char r1;
                r2 = dropWhile is_space (dropWhile is_ident_char r1);
                name = takeWhile is_ident_char r2;
                rest = dropWhile is_ident_char r2
            in if kw = ''define'' \<and> name \<noteq> [] \<and> \<not> is_digit (hd name)
                    \<and> (rest = [] \<or> is_space (hd rest))
               then Define name (trim rest)
               else Unsupported s)"

fun is_unsupported :: "directive \<Rightarrow> bool" where
  "is_unsupported (Unsupported s) = True"
| "is_unsupported _ = False"

subsection \<open>The macro table\<close>

text \<open>
  \<open>definitions\<close> lists the (name, replacement) pairs of a file in the order of its lines.
  The table a later \<^verbatim>\<open>#ifdef\<close> or expansion sees is \<open>macro_table\<close>: the last definition
  of a name is the one in force.
\<close>

fun definitions :: "string list \<Rightarrow> (string \<times> string) list" where
  "definitions [] = []"
| "definitions (l # ls) =
     (case directive_of l of
        Define n b \<Rightarrow> (n, b) # definitions ls
      | _ \<Rightarrow> definitions ls)"

definition macro_table :: "string list \<Rightarrow> string \<rightharpoonup> string" where
  "macro_table ls = map_of (rev (definitions ls))"

definition defined_symbols :: "string list \<Rightarrow> string list" where
  "defined_symbols ls = map fst (definitions ls)"

definition definition_count :: "string list \<Rightarrow> string \<Rightarrow> nat" where
  "definition_count ls n = length (filter (\<lambda>k. k = n) (defined_symbols ls))"

definition has_suffix :: "string \<Rightarrow> string \<Rightarrow> bool" where
  "has_suffix suf s = (length suf \<le> length s \<and> drop (length s - length suf) s = suf)"

definition has_prefix :: "string \<Rightarrow> string \<Rightarrow> bool" where
  "has_prefix pre s = (take (length pre) s = pre)"

subsection \<open>Integer replacement lists\<close>

fun nat_of_digits :: "nat \<Rightarrow> string \<Rightarrow> nat" where
  "nat_of_digits acc [] = acc"
| "nat_of_digits acc (c # cs) = nat_of_digits (10 * acc + (of_char c - 48)) cs"

definition int_of_body :: "string \<Rightarrow> int option" where
  "int_of_body s =
     (case s of
        [] \<Rightarrow> None
      | c # r \<Rightarrow>
          if c = CHR ''-'' then
            (if r \<noteq> [] \<and> list_all is_digit r then Some (- int (nat_of_digits 0 r)) else None)
          else if list_all is_digit s then Some (int (nat_of_digits 0 s))
          else None)"

definition macro_int :: "string list \<Rightarrow> string \<Rightarrow> int option" where
  "macro_int ls n = (case macro_table ls n of None \<Rightarrow> None | Some b \<Rightarrow> int_of_body b)"

subsection \<open>The consumer of the controller tag\<close>

text \<open>
  Modelled from the spec: the driver library's choice of a command set. The library is
  not under \<^verbatim>\<open>src/\<close>; the manifest is written for it. The spec gives its contract: the
  controller group holds a driver tag that "selects the command set for the panel"
  (section 3), there is to be "exactly one controller tag" (section 3), and "conflicting
  controller tags" are a build-time failure (section 7). A driver tag is a defined symbol
  of the form \<^verbatim>\<open>X_DRIVER\<close>, as the manifest's own \<^verbatim>\<open>ST7789_DRIVER\<close> is, and it names the
  command set \<^verbatim>\<open>X\<close>. The same tag defined twice is not a conflict; two different tags
  are.
\<close>

datatype selection =
    Command_set string
  | No_controller
  | Conflicting_controllers

definition controller_tags :: "string list \<Rightarrow> string list" where
  "controller_tags ls = remdups (filter (has_suffix ''_DRIVER'') (defined_symbols ls))"

definition command_set :: "string list \<Rightarrow> selection" where
  "command_set ls =
     (case controller_tags ls of
        [] \<Rightarrow> No_controller
      | [t] \<Rightarrow> Command_set (take (length t - length ''_DRIVER'') t)
      | _ \<Rightarrow> Conflicting_controllers)"

section \<open>Properties of the preprocessor model\<close>

text \<open>A line that starts with \<^verbatim>\<open>//\<close> defines nothing, whatever follows the two slashes.\<close>

lemma commented_line_is_blank:
  "directive_of (CHR ''/'' # CHR ''/'' # s) = Blank"
  by (simp add: directive_of_def)

text \<open>A name is missing from the macro table exactly when no line of the file defines it.\<close>

lemma macro_table_None_iff:
  "macro_table ls n = None \<longleftrightarrow> n \<notin> set (defined_symbols ls)"
  by (simp add: macro_table_def defined_symbols_def map_of_eq_None_iff)

lemma definition_count_zero_iff:
  "definition_count ls n = 0 \<longleftrightarrow> macro_table ls n = None"
  by (auto simp add: macro_table_None_iff definition_count_def filter_empty_conv)

text \<open>
  The selection depends on the file only through its driver tags: a single tag fixes the
  command set, none or two different ones give no command set.
\<close>

lemma command_set_single:
  "controller_tags ls = [t] \<Longrightarrow>
     command_set ls = Command_set (take (length t - length ''_DRIVER'') t)"
  by (simp add: command_set_def)

lemma command_set_of_empty_file:
  "command_set [] = No_controller"
  by (simp add: command_set_def controller_tags_def defined_symbols_def)

lemma command_set_of_two_drivers:
  "command_set [''#define ST7789_DRIVER'', ''#define ILI9341_DRIVER'']
     = Conflicting_controllers"
  by code_simp

section \<open>The macro table of the manifest\<close>

text \<open>
  Running the model on the 62 lines gives 24 definitions: every directive of the file
  that is not behind a comment, with the trailing comment and the padding removed from
  its replacement list.
\<close>

lemma manifest_definitions:
  \<open>definitions User_Setup_h =
    [(''USER_SETUP_INFO'', ''"ConsultEase Faculty Desk Unit"''),
     (''ESP32_PARALLEL'', ''''),
     (''ST7789_DRIVER'', ''''),
     (''TFT_WIDTH'', ''240''),
     (''TFT_HEIGHT'', ''320''),
     (''CGRAM_OFFSET'', ''''),
     (''SPI_FREQUENCY'', ''27000000''),
     (''TFT_MISO'', ''19''),
     (''TFT_MOSI'', ''23''),
     (''TFT_SCLK'', ''18''),
     (''TFT_CS'', ''5''),
     (''TFT_DC'', ''2''),
     (''TFT_RST'', ''4''),
     (''TFT_BL'', ''15''),
     (''TOUCH_CS'', ''-1''),
     (''TFT_SPI_MODE'', ''SPI_MODE0''),
     (''LOAD_GLCD'', ''''),
     (''LOAD_FONT2'', ''''),
     (''LOAD_FONT4'', ''''),
     (''LOAD_FONT6'', ''''),
     (''LOAD_FONT7'', ''''),
     (''LOAD_FONT8'', ''''),
     (''SMOOTH_FONT'', ''''),
     (''TFT_RGB_ORDER'', ''TFT_BGR'')]\<close>
  by code_simp

text \<open>
  The model is adequate for this file: no line holds a block comment or ends in a
  continuation, and no line is a directive or program text the model does not interpret.
\<close>

lemma manifest_single_lines:
  "list_all single_line User_Setup_h"
  by code_simp

lemma manifest_all_supported:
  "filter is_unsupported (map directive_of User_Setup_h) = []"
  by code_simp

lemmas manifest_simps =
  manifest_definitions macro_table_def macro_int_def defined_symbols_def
  definition_count_def int_of_body_def is_digit_def has_suffix_def has_prefix_def

section \<open>The claims\<close>

text \<open>
  C1. The manifest defines the display-controller tag as ST7789: the symbol
  \<^verbatim>\<open>ST7789_DRIVER\<close> is defined (with an empty replacement list), it is the only defined
  symbol of the shape \<^verbatim>\<open>..._DRIVER\<close>, and so the driver library, as the spec describes
  it, specializes to the ST7789 command set.
\<close>

theorem C1_controller_tag_ST7789:
  "macro_table User_Setup_h ''ST7789_DRIVER'' = Some []
   \<and> filter (has_suffix ''_DRIVER'') (defined_symbols User_Setup_h) = [''ST7789_DRIVER'']
   \<and> command_set User_Setup_h = Command_set ''ST7789''"
  by (simp add: manifest_simps command_set_def controller_tags_def)

text \<open>
  C2. The panel geometry is width 240 and height 320 (\<^verbatim>\<open>TFT_WIDTH\<close>, \<^verbatim>\<open>TFT_HEIGHT\<close>), and
  the column/row offset correction flag \<^verbatim>\<open>CGRAM_OFFSET\<close> is defined.
\<close>

theorem C2_panel_geometry:
  "macro_int User_Setup_h ''TFT_WIDTH'' = Some 240
   \<and> macro_int User_Setup_h ''TFT_HEIGHT'' = Some 320
   \<and> macro_table User_Setup_h ''CGRAM_OFFSET'' = Some []"
  by (simp add: manifest_simps)

text \<open>
  C3. The bus is serial at exactly 27,000,000 Hz in SPI mode 0: \<^verbatim>\<open>SPI_FREQUENCY\<close> is
  27000000, \<^verbatim>\<open>TFT_SPI_MODE\<close> is \<^verbatim>\<open>SPI_MODE0\<close>, and the parallel-transport flag
  \<^verbatim>\<open>TFT_PARALLEL_8_BIT\<close> is not defined.
\<close>

theorem C3_serial_bus_27MHz_mode0:
  "macro_int User_Setup_h ''SPI_FREQUENCY'' = Some 27000000
   \<and> macro_table User_Setup_h ''TFT_SPI_MODE'' = Some ''SPI_MODE0''
   \<and> macro_table User_Setup_h ''TFT_PARALLEL_8_BIT'' = None"
  by (simp add: manifest_simps)

text \<open>
  C4. The pin map is data-in 19, data-out 23, clock 18, chip-select 5, data/command 2,
  reset 4, backlight 15, and the touch chip-select \<^verbatim>\<open>TOUCH_CS\<close> is defined as the
  sentinel -1.
\<close>

theorem C4_pin_map:
  "map (macro_int User_Setup_h)
     [''TFT_MISO'', ''TFT_MOSI'', ''TFT_SCLK'', ''TFT_CS'', ''TFT_DC'', ''TFT_RST'', ''TFT_BL'']
     = [Some 19, Some 23, Some 18, Some 5, Some 2, Some 4, Some 15]
   \<and> macro_table User_Setup_h ''TOUCH_CS'' = Some ''-1''
   \<and> macro_int User_Setup_h ''TOUCH_CS'' = Some (- 1)"
  by (simp add: manifest_simps)

text \<open>
  C5. The channel-order tag is blue-green-red: \<^verbatim>\<open>TFT_RGB_ORDER\<close> is defined as
  \<^verbatim>\<open>TFT_BGR\<close>, and no line of the file defines it as \<^verbatim>\<open>TFT_RGB\<close>.
\<close>

theorem C5_channel_order_BGR:
  "macro_table User_Setup_h ''TFT_RGB_ORDER'' = Some ''TFT_BGR''
   \<and> (''TFT_RGB_ORDER'', ''TFT_RGB'') \<notin> set (definitions User_Setup_h)"
  by (simp add: manifest_simps)

text \<open>
  C6. The font inclusion flags that the manifest defines are exactly the six flags
  \<^verbatim>\<open>LOAD_GLCD\<close>, \<^verbatim>\<open>LOAD_FONT2\<close>, \<^verbatim>\<open>LOAD_FONT4\<close>, \<^verbatim>\<open>LOAD_FONT6\<close>, \<^verbatim>\<open>LOAD_FONT7\<close> and
  \<^verbatim>\<open>LOAD_FONT8\<close>, and the smooth-font flag \<^verbatim>\<open>SMOOTH_FONT\<close> is defined as well.
\<close>

theorem C6_font_flags:
  "filter (has_prefix ''LOAD_'') (defined_symbols User_Setup_h)
     = [''LOAD_GLCD'', ''LOAD_FONT2'', ''LOAD_FONT4'', ''LOAD_FONT6'', ''LOAD_FONT7'',
        ''LOAD_FONT8'']
   \<and> macro_table User_Setup_h ''SMOOTH_FONT'' = Some []"
  by (simp add: manifest_simps)

text \<open>
  C7. Every unused option is left undefined: \<^verbatim>\<open>TFT_PARALLEL_8_BIT\<close>, \<^verbatim>\<open>LOAD_FONT8N\<close>,
  \<^verbatim>\<open>SPI_TOUCH\<close> and \<^verbatim>\<open>SUPPORT_TRANSACTIONS\<close> are absent from the defined symbols, and the
  40 MHz alternative of \<^verbatim>\<open>SPI_FREQUENCY\<close> is not among the definitions (the frequency in
  force is not 40000000).
\<close>

theorem C7_unused_options_undefined:
  "macro_table User_Setup_h ''TFT_PARALLEL_8_BIT'' = None
   \<and> macro_table User_Setup_h ''LOAD_FONT8N'' = None
   \<and> macro_table User_Setup_h ''SPI_TOUCH'' = None
   \<and> macro_table User_Setup_h ''SUPPORT_TRANSACTIONS'' = None
   \<and> set [''TFT_PARALLEL_8_BIT'', ''LOAD_FONT8N'', ''SPI_TOUCH'', ''SUPPORT_TRANSACTIONS'']
       \<inter> set (defined_symbols User_Setup_h) = {}
   \<and> (''SPI_FREQUENCY'', ''40000000'') \<notin> set (definitions User_Setup_h)
   \<and> macro_int User_Setup_h ''SPI_FREQUENCY'' \<noteq> Some 40000000"
  by (simp add: manifest_simps)

text \<open>
  C8. Each tag group has exactly one tag: one controller tag (\<^verbatim>\<open>ST7789_DRIVER\<close>), one
  bus-mode tag (\<^verbatim>\<open>TFT_SPI_MODE\<close>, defined once, as \<^verbatim>\<open>SPI_MODE0\<close>) and one channel-order
  tag (\<^verbatim>\<open>TFT_RGB_ORDER\<close>, defined once, as \<^verbatim>\<open>TFT_BGR\<close>); the file has no second
  definition of any of the three symbols.
\<close>

theorem C8_one_tag_per_group:
  "filter (has_suffix ''_DRIVER'') (defined_symbols User_Setup_h) = [''ST7789_DRIVER'']
   \<and> definition_count User_Setup_h ''ST7789_DRIVER'' = 1
   \<and> filter (\<lambda>d. fst d = ''TFT_SPI_MODE'') (definitions User_Setup_h)
       = [(''TFT_SPI_MODE'', ''SPI_MODE0'')]
   \<and> definition_count User_Setup_h ''TFT_SPI_MODE'' = 1
   \<and> filter (\<lambda>d. fst d = ''TFT_RGB_ORDER'') (definitions User_Setup_h)
       = [(''TFT_RGB_ORDER'', ''TFT_BGR'')]
   \<and> definition_count User_Setup_h ''TFT_RGB_ORDER'' = 1"
  by (simp add: manifest_simps)

text \<open>
  C9. The file defines the parallel-enable board tag \<^verbatim>\<open>ESP32_PARALLEL\<close> while the
  8-bit-parallel transport flag \<^verbatim>\<open>TFT_PARALLEL_8_BIT\<close> is undefined and the serial pin
  symbols \<^verbatim>\<open>TFT_MISO\<close>, \<^verbatim>\<open>TFT_MOSI\<close> and \<^verbatim>\<open>TFT_SCLK\<close> are defined.
\<close>

theorem C9_parallel_tag_with_serial_pins:
  "''ESP32_PARALLEL'' \<in> set (defined_symbols User_Setup_h)
   \<and> ''TFT_PARALLEL_8_BIT'' \<notin> set (defined_symbols User_Setup_h)
   \<and> ''TFT_MISO'' \<in> set (defined_symbols User_Setup_h)
   \<and> ''TFT_MOSI'' \<in> set (defined_symbols User_Setup_h)
   \<and> ''TFT_SCLK'' \<in> set (defined_symbols User_Setup_h)"
  by (simp add: manifest_simps)

text \<open>
  C10. The seven display pins are pairwise distinct and each lies in the GPIO index
  range 0 to 39; among all definitions of the file whose replacement list is an integer,
  \<^verbatim>\<open>TOUCH_CS\<close> with -1 is the only negative one.
\<close>

theorem C10_display_pins_distinct_in_range:
  "distinct (map (macro_int User_Setup_h)
     [''TFT_MISO'', ''TFT_MOSI'', ''TFT_SCLK'', ''TFT_CS'', ''TFT_DC'', ''TFT_RST'', ''TFT_BL''])
   \<and> list_all (\<lambda>n. case macro_int User_Setup_h n of None \<Rightarrow> False | Some v \<Rightarrow> 0 \<le> v \<and> v \<le> 39)
     [''TFT_MISO'', ''TFT_MOSI'', ''TFT_SCLK'', ''TFT_CS'', ''TFT_DC'', ''TFT_RST'', ''TFT_BL'']
   \<and> filter (\<lambda>d. case int_of_body (snd d) of None \<Rightarrow> False | Some v \<Rightarrow> v < 0)
       (definitions User_Setup_h) = [(''TOUCH_CS'', ''-1'')]"
  by (simp add: manifest_simps)

end
